theory Spec2Isabelle
  imports Main "HOL-Library.Sublist"
begin

section \<open>The single-URL scrape controller\<close>

text \<open>
  The development follows \<^verbatim>\<open>apps/api/src/controllers/v1/scrape.ts\<close>. The controller
  calls five functions that are declared in other modules (\<^verbatim>\<open>./types\<close>,
  \<^verbatim>\<open>../../main/runWebScraper\<close>); they are arguments of the model, so every statement
  holds for whatever these functions compute. The parse of the schema and the pipeline
  may throw, and the model has a branch for each; \<^verbatim>\<open>legacyScrapeOptions\<close>,
  \<^verbatim>\<open>legacyExtractorOptions\<close> and \<^verbatim>\<open>legacyDocumentConverter\<close> are taken to return a
  value, and \<^verbatim>\<open>req.auth\<close> to hold the team of the request. A JavaScript property that
  may be missing is an \<open>option\<close>, with \<open>None\<close> for \<^verbatim>\<open>undefined\<close>. The clock readings of
  lines 33, 63 and 64 and the log line of the \<^verbatim>\<open>catch\<close> block have no part in what the
  controller answers and are left out.
\<close>

subsection \<open>JavaScript values\<close>

text \<open>Truthiness of an optional string: \<^verbatim>\<open>undefined\<close> and \<^verbatim>\<open>""\<close> are falsy.\<close>

definition truthy :: "string option \<Rightarrow> bool" where
  "truthy v = (case v of None \<Rightarrow> False | Some s \<Rightarrow> s \<noteq> [])"

text \<open>Truthiness of an optional boolean: \<^verbatim>\<open>undefined\<close> and \<^verbatim>\<open>false\<close> are falsy.\<close>

definition flag :: "bool option \<Rightarrow> bool" where
  "flag v = (case v of None \<Rightarrow> False | Some b \<Rightarrow> b)"

text \<open>\<^verbatim>\<open>s.includes(t)\<close>: \<open>t\<close> occurs in \<open>s\<close> as a contiguous run of characters.\<close>

fun js_includes :: "string \<Rightarrow> string \<Rightarrow> bool" where
  "js_includes [] t = (t = [])"
| "js_includes (c # s) t = (prefix t (c # s) \<or> js_includes s t)"

text \<open>
  A thrown value, as the \<^verbatim>\<open>catch\<close> block reads it: its \<^verbatim>\<open>message\<close> property, if it
  has one, and the text that a template literal makes of it.
\<close>

record js_thrown =
  error_message :: "string option"
  rendering :: string

text \<open>\<^verbatim>\<open>new Error(message)\<close>; an \<^verbatim>\<open>Error\<close> with an empty message prints as \<^verbatim>\<open>Error\<close>.\<close>

definition js_Error :: "string \<Rightarrow> js_thrown" where
  "js_Error m =
     \<lparr>error_message = Some m,
      rendering = (if m = [] then ''Error'' else ''Error: '' @ m)\<rparr>"

subsection \<open>Data\<close>

text \<open>
  The result of \<^verbatim>\<open>legacyScrapeOptions\<close>, with the three fields the controller reads.
\<close>

record pageOptions =
  includeRawHtml :: "bool option"
  includeExtract :: "bool option"
  includeMarkdown :: "bool option"

text \<open>The result of \<^verbatim>\<open>legacyExtractorOptions\<close>; the controller reads its \<^verbatim>\<open>mode\<close>.\<close>

record extractorOptions =
  extractor_mode :: string

text \<open>
  Modelled from the spec: the type \<^verbatim>\<open>Document\<close> is declared in \<^verbatim>\<open>./types\<close>, which
  is not among the sources. Of the fields of the data model, \<open>rawHtml\<close> and \<open>markdown\<close>
  are the ones the controller touches, \<open>doc_error\<close> is the optional error record, and
  \<open>other\<close> stands for all remaining fields.
\<close>

record 'o document =
  rawHtml :: "string option"
  markdown :: "string option"
  doc_error :: "string option"
  other :: 'o

text \<open>
  The request body after \<^verbatim>\<open>scrapeRequestSchema.parse\<close>: the properties the controller
  reads, and \<open>body_rest\<close> for the options that only \<^verbatim>\<open>legacyScrapeOptions\<close> looks at.
  Line 28, the one place that reads \<^verbatim>\<open>req.body.extract\<close>, tests its truth value:
  \<open>body_extract\<close> is \<open>None\<close> for \<^verbatim>\<open>undefined\<close> and for every other falsy value, and
  \<open>Some\<close> of the value when it is truthy.
\<close>

record ('e, 'r) scrape_request =
  body_url :: string
  body_origin :: "string option"
  body_timeout :: "int option"
  body_extract :: "'e option"
  body_rest :: 'r

text \<open>
  The job handed to \<^verbatim>\<open>startWebScraperPipeline\<close>. The fields of \<^verbatim>\<open>job.data\<close> carry the
  prefix \<open>job_\<close>, as \<open>origin\<close> and \<open>pageOptions\<close> are variables of the controller.
\<close>

record job_data =
  job_url :: string
  job_mode :: string
  job_crawlerOptions :: "(string \<times> string) list"
  job_team_id :: string
  job_pageOptions :: "pageOptions option"
  job_extractorOptions :: "extractorOptions option"
  job_origin :: "string option"
  job_is_scrape :: bool

record job_opts =
  priority :: int

record job =
  job_id :: string
  data :: job_data
  opts :: job_opts

record pipeline_args =
  job :: job
  token :: string

text \<open>What the pipeline resolves to: \<^verbatim>\<open>{ success, message, docs }\<close>.\<close>

record 'o pipeline_result =
  success :: bool
  message :: string
  docs :: "'o document option list"

text \<open>
  \<^verbatim>\<open>ScrapeResponse\<close>: the success body with its \<^verbatim>\<open>data\<close> and \<^verbatim>\<open>scrape_id\<close>, or the
  error body with its \<^verbatim>\<open>error\<close> string.
\<close>

datatype 'd ScrapeResponse =
  ScrapeSuccess 'd "string option"
| ErrorResponse string

fun body_success :: "'d ScrapeResponse \<Rightarrow> bool" where
  "body_success (ScrapeSuccess d s) = True"
| "body_success (ErrorResponse e) = False"

text \<open>
  How a call of the controller ends: \<^verbatim>\<open>res.status(n).json(b)\<close>, a plain \<^verbatim>\<open>return\<close>
  with nothing sent, or an exception that leaves the function.
\<close>

datatype 'd outcome =
  Sent int "'d ScrapeResponse"
| NoResponse
| Thrown js_thrown

text \<open>A run of the controller: the jobs it gave to the pipeline, and how it ended.\<close>

record 'd run =
  submitted :: "pipeline_args list"
  outcome :: "'d outcome"

subsection \<open>The steps of the controller\<close>

text \<open>Line 71, the test \<^verbatim>\<open>!pageOptions || !pageOptions.includeRawHtml\<close>.\<close>

definition rawHtml_unwanted :: "pageOptions option \<Rightarrow> bool" where
  "rawHtml_unwanted po =
     (case po of None \<Rightarrow> True | Some p \<Rightarrow> \<not> flag (includeRawHtml p))"

text \<open>Lines 72 to 76: \<^verbatim>\<open>if (doc && doc.rawHtml) delete doc.rawHtml\<close> on every document.\<close>

definition delete_rawHtml :: "'o document option \<Rightarrow> 'o document option" where
  "delete_rawHtml doc =
     (case doc of
        None \<Rightarrow> None
      | Some d \<Rightarrow> if truthy (rawHtml d) then Some (d\<lparr>rawHtml := None\<rparr>) else Some d)"

definition strip_rawHtml ::
  "pageOptions option \<Rightarrow> 'o document option list \<Rightarrow> 'o document option list" where
  "strip_rawHtml po ds = (if rawHtml_unwanted po then map delete_rawHtml ds else ds)"

text \<open>
  Lines 79 and 80, the two nested tests \<^verbatim>\<open>pageOptions && pageOptions.includeExtract\<close>
  and \<^verbatim>\<open>!pageOptions.includeMarkdown\<close>.
\<close>

definition markdown_unwanted :: "pageOptions option \<Rightarrow> bool" where
  "markdown_unwanted po =
     (case po of
        None \<Rightarrow> False
      | Some p \<Rightarrow> if flag (includeExtract p) then \<not> flag (includeMarkdown p) else False)"

text \<open>Lines 81 to 85: \<^verbatim>\<open>if (doc && doc.markdown) delete doc.markdown\<close> on every document.\<close>

definition delete_markdown :: "'o document option \<Rightarrow> 'o document option" where
  "delete_markdown doc =
     (case doc of
        None \<Rightarrow> None
      | Some d \<Rightarrow> if truthy (markdown d) then Some (d\<lparr>markdown := None\<rparr>) else Some d)"

definition strip_markdown ::
  "pageOptions option \<Rightarrow> 'o document option list \<Rightarrow> 'o document option list" where
  "strip_markdown po ds = (if markdown_unwanted po then map delete_markdown ds else ds)"

text \<open>
  The array \<^verbatim>\<open>docs\<close> as it stands in line 106, after both passes. The passes change the
  documents in place; each applies one and the same idempotent update to every element,
  so a \<open>map\<close> over the list gives the array that the in-place passes leave.
\<close>

definition docs_at_response ::
  "pageOptions option \<Rightarrow> 'o document option list \<Rightarrow> 'o document option list" where
  "docs_at_response po ds = strip_markdown po (strip_rawHtml po ds)"

text \<open>\<^verbatim>\<open>docs[0]\<close>: \<^verbatim>\<open>undefined\<close> on an empty array.\<close>

definition first_doc :: "'o document option list \<Rightarrow> 'o document option" where
  "first_doc ds = (case ds of [] \<Rightarrow> None | d # _ \<Rightarrow> d)"

text \<open>\<^verbatim>\<open>origin?.includes("website") ? jobId : undefined\<close>\<close>

definition scrape_id_of :: "string option \<Rightarrow> string \<Rightarrow> string option" where
  "scrape_id_of origin jobId =
     (if (case origin of None \<Rightarrow> False | Some s \<Rightarrow> js_includes s ''website'')
      then Some jobId else None)"

text \<open>
  Lines 28 to 30: \<^verbatim>\<open>req.body.extract ? legacyExtractorOptions(req.body.extract) : undefined\<close>,
  with \<open>None\<close> for a falsy \<^verbatim>\<open>req.body.extract\<close>.
\<close>

definition extractor_of ::
  "('e \<Rightarrow> extractorOptions) \<Rightarrow> ('e, 'r) scrape_request \<Rightarrow> extractorOptions option" where
  "extractor_of legacyExtractorOptions body =
     (case body_extract body of
        None \<Rightarrow> None
      | Some x \<Rightarrow> Some (legacyExtractorOptions x))"

text \<open>Lines 36 to 57: the argument of \<^verbatim>\<open>startWebScraperPipeline\<close>.\<close>

definition scrape_job ::
  "('e, 'r) scrape_request \<Rightarrow> string \<Rightarrow> string \<Rightarrow> pageOptions option \<Rightarrow>
   extractorOptions option \<Rightarrow> pipeline_args" where
  "scrape_job body team jobId pageOptions extractorOptions =
     \<lparr>job =
        \<lparr>job_id = jobId,
         data =
           \<lparr>job_url = body_url body,
            job_mode = ''single_urls'',
            job_crawlerOptions = [],
            job_team_id = team,
            job_pageOptions = pageOptions,
            job_extractorOptions = extractorOptions,
            job_origin = body_origin body,
            job_is_scrape = True\<rparr>,
         opts = \<lparr>priority = 100\<rparr>\<rparr>,
      token = jobId\<rparr>"

text \<open>
  Lines 36 to 110, the \<^verbatim>\<open>try\<close> block: \<open>Inl\<close> is an exception on its way to the
  \<^verbatim>\<open>catch\<close> block. The variable \<^verbatim>\<open>earlyReturn\<close> of the enclosing function is an
  argument here.
\<close>

definition try_block ::
  "(pipeline_args \<Rightarrow> js_thrown + 'o pipeline_result) \<Rightarrow> ('o document option \<Rightarrow> 'd) \<Rightarrow>
   bool \<Rightarrow> pipeline_args \<Rightarrow> pageOptions option \<Rightarrow> string option \<Rightarrow> string \<Rightarrow>
   js_thrown + 'd outcome" where
  "try_block startWebScraperPipeline legacyDocumentConverter earlyReturn args pageOptions
     origin jobId =
     (case startWebScraperPipeline args of
        Inl thrown \<Rightarrow> Inl thrown
      | Inr r \<Rightarrow>
          if \<not> success r then Inl (js_Error (message r))
          else if earlyReturn then Inr NoResponse
          else
            Inr (Sent 200
              (ScrapeSuccess
                (legacyDocumentConverter (first_doc (docs_at_response pageOptions (docs r))))
                (scrape_id_of origin jobId))))"

text \<open>Lines 111 to 123, the \<^verbatim>\<open>catch\<close> block.\<close>

definition thrown_text :: "js_thrown \<Rightarrow> string" where
  "thrown_text e =
     (case error_message e of
        None \<Rightarrow> rendering e
      | Some m \<Rightarrow> if m \<noteq> [] then m else rendering e)"

definition catch_block :: "js_thrown \<Rightarrow> extractorOptions option \<Rightarrow> 'd outcome" where
  "catch_block e extractorOptions =
     Sent 500
       (ErrorResponse
         (''(Internal server error) - '' @ thrown_text e @ '' '' @
          (if (case extractorOptions of
                 None \<Rightarrow> False
               | Some x \<Rightarrow> extractor_mode x \<noteq> ''markdown'')
           then '' - Could be due to LLM parsing issues'' else '''')))"

text \<open>
  The controller. Its arguments are the five functions of other modules, the raw request
  body, the team of the authenticated request and the identifier that \<^verbatim>\<open>uuidv4()\<close>
  returns. A body that \<^verbatim>\<open>scrapeRequestSchema.parse\<close> refuses makes it throw in line 22,
  outside the \<^verbatim>\<open>try\<close> block.
\<close>

definition scrapeController ::
  "('raw \<Rightarrow> js_thrown + ('e, 'r) scrape_request) \<Rightarrow>
   (('e, 'r) scrape_request \<Rightarrow> pageOptions option) \<Rightarrow>
   ('e \<Rightarrow> extractorOptions) \<Rightarrow>
   (pipeline_args \<Rightarrow> js_thrown + 'o pipeline_result) \<Rightarrow>
   ('o document option \<Rightarrow> 'd) \<Rightarrow>
   'raw \<Rightarrow> string \<Rightarrow> string \<Rightarrow> 'd run" where
  "scrapeController parse legacyScrapeOptions legacyExtractorOptions startWebScraperPipeline
     legacyDocumentConverter raw team jobId =
     (case parse raw of
        Inl rejected \<Rightarrow> \<lparr>submitted = [], outcome = Thrown rejected\<rparr>
      | Inr body \<Rightarrow>
          let earlyReturn = False;
              origin = body_origin body;
              pageOptions = legacyScrapeOptions body;
              extractorOptions = extractor_of legacyExtractorOptions body;
              args = scrape_job body team jobId pageOptions extractorOptions
          in \<lparr>submitted = [args],
              outcome =
                (case try_block startWebScraperPipeline legacyDocumentConverter earlyReturn
                        args pageOptions origin jobId of
                   Inl e \<Rightarrow> catch_block e extractorOptions
                 | Inr out \<Rightarrow> out)\<rparr>)"

subsection \<open>The request schema\<close>

text \<open>
  Modelled from the spec: \<^verbatim>\<open>scrapeRequestSchema\<close> is declared in \<^verbatim>\<open>./types\<close>, which is
  not among the sources. The spec gives the input of a scrape as
  \<^verbatim>\<open>{ url, ...ScrapeOptions }\<close>, lists the recognized options, and says that the options
  are a closed set whose unknown keys must be rejected at the boundary. The raw body is a
  JSON object, a list of keys with their values. What the schema makes of the values of
  the known keys is the argument \<open>parse_fields\<close>, and the error it throws for the
  unknown keys is the argument \<open>unknown_keys\<close>.
\<close>

definition ScrapeOptions_keys :: "string list" where
  "ScrapeOptions_keys =
     [''formats'', ''onlyMainContent'', ''includeTags'', ''excludeTags'', ''waitFor'',
      ''timeout'', ''headers'', ''mobile'', ''skipTlsVerification'', ''removeBase64Images'',
      ''blockAds'', ''proxy'', ''extract'']"

definition scrapeRequest_keys :: "string list" where
  "scrapeRequest_keys = ''url'' # ScrapeOptions_keys"

definition scrapeRequestSchema_parse ::
  "(string list \<Rightarrow> js_thrown) \<Rightarrow>
   ((string \<times> 'v) list \<Rightarrow> js_thrown + ('e, 'r) scrape_request) \<Rightarrow>
   (string \<times> 'v) list \<Rightarrow> js_thrown + ('e, 'r) scrape_request" where
  "scrapeRequestSchema_parse unknown_keys parse_fields raw =
     (case filter (\<lambda>k. k \<notin> set scrapeRequest_keys) (map fst raw) of
        [] \<Rightarrow> parse_fields raw
      | k # ks \<Rightarrow> Inl (unknown_keys (k # ks)))"

subsection \<open>Example requests\<close>

text \<open>Concrete arguments, for running the controller on.\<close>

definition example_body :: "(unit, unit) scrape_request" where
  "example_body =
     \<lparr>body_url = ''https://example.com/'', body_origin = Some ''website'',
      body_timeout = None, body_extract = None, body_rest = ()\<rparr>"

definition api_body :: "(unit, unit) scrape_request" where
  "api_body = example_body\<lparr>body_origin := Some ''api''\<rparr>"

definition example_doc :: "unit document" where
  "example_doc =
     \<lparr>rawHtml = Some ''<h1>Hi</h1>'', markdown = Some ''# Hi'', doc_error = None,
      other = ()\<rparr>"


definition example_pipeline :: "pipeline_args \<Rightarrow> js_thrown + unit pipeline_result" where
  "example_pipeline args = Inr \<lparr>success = True, message = [], docs = [Some example_doc]\<rparr>"


definition failing_pipeline :: "pipeline_args \<Rightarrow> js_thrown + unit pipeline_result" where
  "failing_pipeline args = Inr \<lparr>success = False, message = ''timeout'', docs = []\<rparr>"

definition throwing_pipeline :: "pipeline_args \<Rightarrow> js_thrown + unit pipeline_result" where
  "throwing_pipeline args = Inl \<lparr>error_message = None, rendering = ''queue closed''\<rparr>"

definition markdown_only :: "(unit, unit) scrape_request \<Rightarrow> pageOptions option" where
  "markdown_only body =
     Some \<lparr>includeRawHtml = Some False, includeExtract = Some False,
           includeMarkdown = Some True\<rparr>"




definition second_doc :: "unit document" where
  "second_doc =
     \<lparr>rawHtml = Some ''<p>Bye</p>'', markdown = Some ''Bye'', doc_error = Some ''404'',
      other = ()\<rparr>"

definition two_docs_pipeline :: "pipeline_args \<Rightarrow> js_thrown + unit pipeline_result" where
  "two_docs_pipeline args =
     Inr \<lparr>success = True, message = [], docs = [Some example_doc, Some second_doc]\<rparr>"

definition no_flags :: "(unit, unit) scrape_request \<Rightarrow> pageOptions option" where
  "no_flags body =
     Some \<lparr>includeRawHtml = None, includeExtract = None, includeMarkdown = None\<rparr>"




definition example_extractor :: "unit \<Rightarrow> extractorOptions" where
  "example_extractor x = \<lparr>extractor_mode = ''llm-extraction''\<rparr>"

definition example_unknown_keys :: "string list \<Rightarrow> js_thrown" where
  "example_unknown_keys ks = js_Error ''Unrecognized key in body''"

definition example_fields ::
  "(string \<times> string) list \<Rightarrow> js_thrown + (unit, unit) scrape_request" where
  "example_fields raw = Inr example_body"

definition good_raw :: "(string \<times> string) list" where
  "good_raw = [(''url'', ''https://example.com/''), (''onlyMainContent'', ''true'')]"

definition bad_raw :: "(string \<times> string) list" where
  "bad_raw = [(''url'', ''https://example.com/''), (''crawlAll'', ''true'')]"

lemmas example_defs =
  example_body_def example_doc_def example_pipeline_def markdown_only_def
  example_extractor_def

lemmas step_defs =
  docs_at_response_def strip_markdown_def strip_rawHtml_def delete_markdown_def
  delete_rawHtml_def rawHtml_unwanted_def markdown_unwanted_def first_doc_def truthy_def
  flag_def scrape_id_of_def

section \<open>Properties of the controller\<close>

subsection \<open>Auxiliary facts\<close>

text \<open>\<open>js_includes\<close> is the substring test.\<close>

lemma js_includes_iff: "js_includes s t \<longleftrightarrow> (\<exists>a b. s = a @ t @ b)"
proof (induction s)
  case Nil
  then show ?case by auto
next
  case (Cons c s)
  show ?case
  proof
    assume "js_includes (c # s) t"
    then consider "prefix t (c # s)" | "js_includes s t" by auto
    then show "\<exists>a b. c # s = a @ t @ b"
    proof cases
      case 1
      then obtain b where "c # s = t @ b" by (auto simp: prefix_def)
      then have "c # s = [] @ t @ b" by simp
      then show ?thesis by blast
    next
      case 2
      with Cons.IH obtain a b where "s = a @ t @ b" by blast
      then have "c # s = (c # a) @ t @ b" by simp
      then show ?thesis by blast
    qed
  next
    assume "\<exists>a b. c # s = a @ t @ b"
    then obtain a b where ab: "c # s = a @ t @ b" by blast
    show "js_includes (c # s) t"
    proof (cases a)
      case Nil
      with ab have "prefix t (c # s)" by (simp add: prefix_def)
      then show ?thesis by simp
    next
      case (Cons x a')
      with ab have "s = a' @ t @ b" by simp
      with Cons.IH have "js_includes s t" by blast
      then show ?thesis by simp
    qed
  qed
qed

text \<open>The tests of lines 71, 79 and 80, in terms of the fields of \<^verbatim>\<open>pageOptions\<close>.\<close>

lemma flag_iff: "flag v \<longleftrightarrow> v = Some True"
  by (cases v) (simp_all add: flag_def)

lemma rawHtml_unwanted_iff:
  "rawHtml_unwanted po \<longleftrightarrow> \<not> (\<exists>p. po = Some p \<and> includeRawHtml p = Some True)"
  by (cases po) (simp_all add: rawHtml_unwanted_def flag_iff)

lemma markdown_unwanted_iff:
  "markdown_unwanted po \<longleftrightarrow>
     (\<exists>p. po = Some p \<and> includeExtract p = Some True \<and> includeMarkdown p \<noteq> Some True)"
  by (cases po) (simp_all add: markdown_unwanted_def flag_iff)

text \<open>
  \<^verbatim>\<open>docs[0]\<close> in line 108 is the head of the array that the pipeline returned, after
  the two passes.
\<close>

lemma first_doc_at_response_Nil: "first_doc (docs_at_response po []) = None"
  by (simp add: docs_at_response_def strip_markdown_def strip_rawHtml_def first_doc_def)

lemma first_doc_at_response_Cons:
  "first_doc (docs_at_response po (x # rest)) =
     (if markdown_unwanted po then delete_markdown else id)
       ((if rawHtml_unwanted po then delete_rawHtml else id) x)"
  by (simp add: docs_at_response_def strip_markdown_def strip_rawHtml_def first_doc_def)

lemma delete_rawHtml_Some:
  "rawHtml d \<noteq> Some [] \<Longrightarrow> delete_rawHtml (Some d) = Some (d\<lparr>rawHtml := None\<rparr>)"
  by (cases "rawHtml d") (simp_all add: delete_rawHtml_def truthy_def)

lemma delete_markdown_Some:
  "markdown d \<noteq> Some [] \<Longrightarrow> delete_markdown (Some d) = Some (d\<lparr>markdown := None\<rparr>)"
  by (cases "markdown d") (simp_all add: delete_markdown_def truthy_def)

text \<open>The three ways through the controller.\<close>

lemma controller_rejected:
  "parse raw = Inl e \<Longrightarrow>
   scrapeController parse lso leo pipeline conv raw team jobId =
     \<lparr>submitted = [], outcome = Thrown e\<rparr>"
  by (simp add: scrapeController_def)

lemma controller_submitted:
  "parse raw = Inr body \<Longrightarrow>
   submitted (scrapeController parse lso leo pipeline conv raw team jobId) =
     [scrape_job body team jobId (lso body) (extractor_of leo body)]"
  by (simp add: scrapeController_def Let_def)

lemma controller_outcome:
  "parse raw = Inr body \<Longrightarrow>
   outcome (scrapeController parse lso leo pipeline conv raw team jobId) =
     (case try_block pipeline conv False
             (scrape_job body team jobId (lso body) (extractor_of leo body))
             (lso body) (body_origin body) jobId of
        Inl e \<Rightarrow> catch_block e (extractor_of leo body)
      | Inr out \<Rightarrow> out)"
  by (simp add: scrapeController_def Let_def)

lemma successful_outcome:
  assumes "parse raw = Inr body"
    and "pipeline (scrape_job body team jobId (lso body) (extractor_of leo body)) = Inr r"
    and "success r"
  shows "outcome (scrapeController parse lso leo pipeline conv raw team jobId) =
           Sent 200
             (ScrapeSuccess (conv (first_doc (docs_at_response (lso body) (docs r))))
                (scrape_id_of (body_origin body) jobId))"
  using assms by (simp add: controller_outcome try_block_def)

text \<open>
  The branch of lines 66 to 69 is part of the model: were \<^verbatim>\<open>earlyReturn\<close> ever true, a
  successful run would end with nothing sent.
\<close>

lemma try_block_early:
  "pipeline args = Inr r \<Longrightarrow> success r \<Longrightarrow>
   try_block pipeline conv True args po origin jobId = Inr NoResponse"
  by (simp add: try_block_def)

subsection \<open>The job\<close>

text \<open>
  C4: every job that the scrape controller hands to the pipeline is created with
  priority 100.
\<close>

theorem scrape_job_priority:
  "\<forall>a \<in> set (submitted (scrapeController parse lso leo pipeline conv raw team jobId)).
     priority (opts (job a)) = 100"
  by (simp add: scrapeController_def scrape_job_def Let_def split: sum.split)

text \<open>The example request submits one job, and its priority is 100.\<close>

theorem scrape_job_priority_witness:
  "map (\<lambda>a. priority (opts (job a)))
     (submitted (scrapeController Inr markdown_only example_extractor example_pipeline id
        example_body ''team-1'' ''job-1'')) = [100]"
  using scrape_job_priority [of Inr markdown_only example_extractor example_pipeline id
      example_body "''team-1''" "''job-1''"]
  by (simp add: controller_submitted)

subsection \<open>The response to a successful run\<close>

text \<open>
  As stated, C2 asks that the data of the response is the converter applied to the first
  document as the pipeline produced it. Lines 71 to 77 delete the raw HTML of every
  document first when the request did not ask for it. Here the pipeline returns two
  documents and the converter is the identity: the data is the first document without
  its raw HTML, and not the first document.
\<close>

theorem scrape_success_response_counterexample:
  "outcome (scrapeController Inr no_flags example_extractor two_docs_pipeline id
     example_body ''team-1'' ''job-1'') =
   Sent 200
     (ScrapeSuccess
        (Some \<lparr>rawHtml = None, markdown = Some ''# Hi'', doc_error = None, other = ()\<rparr>)
        (Some ''job-1''))
   \<and> id (Some example_doc) \<noteq>
       Some \<lparr>rawHtml = None, markdown = Some ''# Hi'', doc_error = None, other = ()\<rparr>
   \<and> \<not> (\<exists>sid. outcome (scrapeController Inr no_flags example_extractor two_docs_pipeline id
            example_body ''team-1'' ''job-1'') =
          Sent 200 (ScrapeSuccess (id (Some example_doc)) sid))"
  by (simp add: controller_outcome try_block_def two_docs_pipeline_def no_flags_def
      example_defs step_defs)

text \<open>
  C2, amended: when the pipeline run succeeds, the controller answers with status 200
  and a body whose \<^verbatim>\<open>success\<close> is true and whose \<^verbatim>\<open>data\<close> is
  \<^verbatim>\<open>legacyDocumentConverter\<close> applied to the first document that the pipeline returned,
  after its \<^verbatim>\<open>rawHtml\<close> is deleted unless \<^verbatim>\<open>pageOptions.includeRawHtml\<close> is set, and
  its \<^verbatim>\<open>markdown\<close> is deleted if \<^verbatim>\<open>pageOptions.includeExtract\<close> is set and
  \<^verbatim>\<open>pageOptions.includeMarkdown\<close> is not; the converter gets \<^verbatim>\<open>undefined\<close> when the
  array is empty. The statement leaves out a field to delete that holds the empty
  string.
\<close>

theorem scrape_success_response:
  fixes conv :: "'o document option \<Rightarrow> 'd"
  defines "raw_requested \<equiv> \<lambda>po. \<exists>p. po = Some p \<and> includeRawHtml p = Some True"
    and "extract_without_markdown \<equiv> \<lambda>po. \<exists>p. po = Some p \<and> includeExtract p = Some True
           \<and> includeMarkdown p \<noteq> Some True"
  assumes "parse raw = Inr body"
    and "pipeline (scrape_job body team jobId (lso body) (extractor_of leo body)) = Inr r"
    and "success r"
    and "\<And>d rest. docs r = Some d # rest \<Longrightarrow>
           (\<not> raw_requested (lso body) \<longrightarrow> rawHtml d \<noteq> Some [])
           \<and> (extract_without_markdown (lso body) \<longrightarrow> markdown d \<noteq> Some [])"
  shows "\<exists>b sid.
           outcome (scrapeController parse lso leo pipeline conv raw team jobId) = Sent 200 b
           \<and> body_success b
           \<and> b = ScrapeSuccess
                 (conv (case docs r of
                          [] \<Rightarrow> None
                        | None # rest \<Rightarrow> None
                        | Some d # rest \<Rightarrow>
                            Some (d\<lparr>rawHtml :=
                                      (if raw_requested (lso body) then rawHtml d else None),
                                    markdown :=
                                      (if extract_without_markdown (lso body) then None
                                       else markdown d)\<rparr>)))
                 sid"
proof -
  have "first_doc (docs_at_response (lso body) (docs r)) =
      (case docs r of
         [] \<Rightarrow> None
       | None # rest \<Rightarrow> None
       | Some d # rest \<Rightarrow>
           Some (d\<lparr>rawHtml := (if raw_requested (lso body) then rawHtml d else None),
                   markdown := (if extract_without_markdown (lso body) then None
                                else markdown d)\<rparr>))"
  proof (cases "docs r")
    case Nil
    then show ?thesis by (simp add: first_doc_at_response_Nil)
  next
    case (Cons x rest)
    show ?thesis
    proof (cases x)
      case None
      with Cons show ?thesis
        by (simp add: first_doc_at_response_Cons delete_rawHtml_def delete_markdown_def)
    next
      case (Some d)
      with Cons assms(6) have ne: "\<not> raw_requested (lso body) \<longrightarrow> rawHtml d \<noteq> Some []"
        "extract_without_markdown (lso body) \<longrightarrow> markdown d \<noteq> Some []"
        by blast+
      have ru: "rawHtml_unwanted (lso body) = (\<not> raw_requested (lso body))"
        unfolding raw_requested_def by (rule rawHtml_unwanted_iff)
      have mu: "markdown_unwanted (lso body) = extract_without_markdown (lso body)"
        unfolding extract_without_markdown_def by (rule markdown_unwanted_iff)
      have step: "first_doc (docs_at_response (lso body) (docs r)) =
          (if extract_without_markdown (lso body) then delete_markdown else id)
            ((if raw_requested (lso body) then id else delete_rawHtml) (Some d))"
        using Cons Some by (simp add: first_doc_at_response_Cons ru mu)
      show ?thesis
      proof (cases "raw_requested (lso body)")
        case True
        show ?thesis
        proof (cases "extract_without_markdown (lso body)")
          case True
          with \<open>raw_requested (lso body)\<close> ne(2) Cons Some step show ?thesis
            by (simp add: delete_markdown_Some)
        next
          case False
          with \<open>raw_requested (lso body)\<close> Cons Some step show ?thesis by simp
        qed
      next
        case False
        with ne(1) have raw: "delete_rawHtml (Some d) = Some (d\<lparr>rawHtml := None\<rparr>)"
          by (simp add: delete_rawHtml_Some)
        show ?thesis
        proof (cases "extract_without_markdown (lso body)")
          case True
          with ne(2) have "markdown (d\<lparr>rawHtml := None\<rparr>) \<noteq> Some []" by simp
          then have "delete_markdown (Some (d\<lparr>rawHtml := None\<rparr>)) =
              Some (d\<lparr>rawHtml := None, markdown := None\<rparr>)"
            by (simp add: delete_markdown_Some)
          with True \<open>\<not> raw_requested (lso body)\<close> raw Cons Some step show ?thesis by simp
        next
          case False
          with \<open>\<not> raw_requested (lso body)\<close> raw Cons Some step show ?thesis by simp
        qed
      qed
    qed
  qed
  with assms(3-5) show ?thesis by (simp add: successful_outcome)
qed

text \<open>
  The pipeline returns two documents, the page options have no field set: the data is
  the first of the two, without its raw HTML and with its markdown.
\<close>

theorem scrape_success_response_witness:
  "\<exists>sid. outcome (scrapeController Inr no_flags example_extractor two_docs_pipeline id
       example_body ''team-1'' ''job-1'') =
     Sent 200
       (ScrapeSuccess
          (Some \<lparr>rawHtml = None, markdown = Some ''# Hi'', doc_error = None, other = ()\<rparr>)
          sid)"
proof -
  have "\<exists>b sid.
      outcome (scrapeController Inr no_flags example_extractor two_docs_pipeline id
        example_body ''team-1'' ''job-1'') = Sent 200 b
      \<and> body_success b
      \<and> b = ScrapeSuccess
            (id (case docs \<lparr>success = True, message = [],
                            docs = [Some example_doc, Some second_doc]\<rparr> of
                   [] \<Rightarrow> None
                 | None # rest \<Rightarrow> None
                 | Some d # rest \<Rightarrow>
                     Some (d\<lparr>rawHtml :=
                               (if \<exists>p. no_flags example_body = Some p
                                      \<and> includeRawHtml p = Some True
                                then rawHtml d else None),
                             markdown :=
                               (if \<exists>p. no_flags example_body = Some p
                                      \<and> includeExtract p = Some True
                                      \<and> includeMarkdown p \<noteq> Some True
                                then None else markdown d)\<rparr>)))
            sid"
    by (rule scrape_success_response [where body = example_body])
      (simp_all add: two_docs_pipeline_def example_doc_def no_flags_def)
  then show ?thesis
    by (auto simp add: example_doc_def no_flags_def)
qed

subsection \<open>The response to a failed run\<close>

text \<open>
  C3: when the pipeline run fails, be it that the pipeline throws or that it reports
  \<^verbatim>\<open>success: false\<close>, the controller answers with a status between 500 and 599 and the
  error body, which holds \<^verbatim>\<open>success: false\<close> and a string; it does not answer with
  \<^verbatim>\<open>success: true\<close>.
\<close>

theorem scrape_failure_response:
  fixes conv :: "'o document option \<Rightarrow> 'd"
  assumes "parse raw = Inr body"
    and "pipeline (scrape_job body team jobId (lso body) (extractor_of leo body)) = Inl e
         \<or> (\<exists>r. pipeline (scrape_job body team jobId (lso body) (extractor_of leo body)) = Inr r
                \<and> \<not> success r)"
  shows "\<exists>status msg.
           outcome (scrapeController parse lso leo pipeline conv raw team jobId) =
             Sent status (ErrorResponse msg)
           \<and> 500 \<le> status \<and> status \<le> 599
           \<and> \<not> body_success (ErrorResponse msg :: 'd ScrapeResponse)"
  using assms by (auto simp add: controller_outcome try_block_def catch_block_def)

text \<open>
  A pipeline that reports failure with the message \<^verbatim>\<open>timeout\<close>, and one that throws a
  value without a message: both end in status 500 and the error body.
\<close>

theorem scrape_failure_response_witness:
  "outcome (scrapeController Inr markdown_only example_extractor failing_pipeline id
     example_body ''team-1'' ''job-1'') =
   Sent 500 (ErrorResponse ''(Internal server error) - timeout '')
   \<and> outcome (scrapeController Inr markdown_only example_extractor throwing_pipeline id
     example_body ''team-1'' ''job-1'') =
   Sent 500 (ErrorResponse ''(Internal server error) - queue closed '')"
  using scrape_failure_response [where parse = Inr and raw = example_body
      and body = example_body and pipeline = failing_pipeline and lso = markdown_only
      and leo = example_extractor and team = "''team-1''" and jobId = "''job-1''"
      and conv = id]
    scrape_failure_response [where parse = Inr and raw = example_body
      and body = example_body and pipeline = throwing_pipeline and lso = markdown_only
      and leo = example_extractor and team = "''team-1''" and jobId = "''job-1''"
      and conv = id]
  by (simp add: controller_outcome try_block_def catch_block_def thrown_text_def
      js_Error_def extractor_of_def failing_pipeline_def throwing_pipeline_def
      example_defs)

subsection \<open>The scrape identifier\<close>

text \<open>
  C9: in the response to a successful run, \<^verbatim>\<open>scrape_id\<close> is the identifier of the job
  when the origin of the request is a string in which \<^verbatim>\<open>website\<close> occurs, and is
  \<^verbatim>\<open>undefined\<close> in every other case.
\<close>

theorem scrape_id_origin:
  assumes "parse raw = Inr body"
    and "pipeline (scrape_job body team jobId (lso body) (extractor_of leo body)) = Inr r"
    and "success r"
  shows "\<exists>a d sid.
           submitted (scrapeController parse lso leo pipeline conv raw team jobId) = [a]
           \<and> outcome (scrapeController parse lso leo pipeline conv raw team jobId) =
               Sent 200 (ScrapeSuccess d sid)
           \<and> sid = (if \<exists>x y. body_origin body = Some (x @ ''website'' @ y)
                    then Some (job_id (job a)) else None)"
  using assms
  by (auto simp add: controller_submitted controller_outcome try_block_def scrape_id_of_def
      js_includes_iff scrape_job_def split: option.splits)

text \<open>The origin \<^verbatim>\<open>website\<close> gets the identifier of the job, the origin \<^verbatim>\<open>api\<close> none.\<close>

theorem scrape_id_origin_witness:
  "outcome (scrapeController Inr markdown_only example_extractor example_pipeline id
     example_body ''team-1'' ''job-1'') =
   Sent 200
     (ScrapeSuccess
        (Some \<lparr>rawHtml = None, markdown = Some ''# Hi'', doc_error = None, other = ()\<rparr>)
        (Some ''job-1''))
   \<and> outcome (scrapeController Inr markdown_only example_extractor example_pipeline id
     api_body ''team-1'' ''job-1'') =
   Sent 200
     (ScrapeSuccess
        (Some \<lparr>rawHtml = None, markdown = Some ''# Hi'', doc_error = None, other = ()\<rparr>)
        None)"
  using scrape_id_origin [where parse = Inr and raw = example_body
      and body = example_body and pipeline = example_pipeline and lso = markdown_only
      and leo = example_extractor and team = "''team-1''" and jobId = "''job-1''"
      and conv = id]
    scrape_id_origin [where parse = Inr and raw = api_body
      and body = api_body and pipeline = example_pipeline and lso = markdown_only
      and leo = example_extractor and team = "''team-1''" and jobId = "''job-1''"
      and conv = id]
  by (simp add: controller_outcome try_block_def api_body_def example_defs step_defs)

subsection \<open>The early return\<close>

text \<open>
  C10: the branch of the early return is never taken. \<^verbatim>\<open>earlyReturn\<close> is false from
  line 23 on, so no call of the controller ends with nothing sent, and every successful
  run of the pipeline is answered.
\<close>

theorem earlyReturn_unreachable:
  "outcome (scrapeController parse lso leo pipeline conv raw team jobId) \<noteq> NoResponse
   \<and> (\<forall>body r. parse raw = Inr body
         \<and> pipeline (scrape_job body team jobId (lso body) (extractor_of leo body)) = Inr r
         \<and> success r
       \<longrightarrow> (\<exists>b. outcome (scrapeController parse lso leo pipeline conv raw team jobId) =
               Sent 200 b))"
proof
  show "outcome (scrapeController parse lso leo pipeline conv raw team jobId) \<noteq> NoResponse"
    by (simp add: scrapeController_def try_block_def catch_block_def Let_def
        split: sum.split)
next
  show "\<forall>body r. parse raw = Inr body
         \<and> pipeline (scrape_job body team jobId (lso body) (extractor_of leo body)) = Inr r
         \<and> success r
       \<longrightarrow> (\<exists>b. outcome (scrapeController parse lso leo pipeline conv raw team jobId) =
               Sent 200 b)"
    by (simp add: controller_outcome try_block_def)
qed

text \<open>The example request is answered.\<close>

theorem earlyReturn_unreachable_witness:
  "outcome (scrapeController Inr markdown_only example_extractor example_pipeline id
     example_body ''team-1'' ''job-1'') \<noteq> NoResponse
   \<and> (\<exists>b. outcome (scrapeController Inr markdown_only example_extractor example_pipeline id
     example_body ''team-1'' ''job-1'') = Sent 200 b)"
  using earlyReturn_unreachable [of Inr markdown_only example_extractor example_pipeline id
      example_body "''team-1''" "''job-1''"]
  by (simp add: example_pipeline_def)

subsection \<open>Raw HTML in the response\<close>


subsection \<open>Markdown in the response\<close>




subsection \<open>Validation of the request\<close>

text \<open>
  C5: the body of a request is validated against the schema before any scraping begins,
  and a body with a key outside the closed set of the scrape options (the \<^verbatim>\<open>url\<close> and
  the recognized options) fails the validation. Every job that reaches the pipeline is
  built from a body that the schema has accepted; for a body with an unknown key the
  controller throws in line 22, with no job submitted and no response of its own.
\<close>

theorem unknown_key_rejected:
  fixes raw :: "(string \<times> 'v) list"
  shows "(\<forall>a \<in> set (submitted (scrapeController
              (scrapeRequestSchema_parse unknown_keys parse_fields) lso leo pipeline conv raw
              team jobId)).
            \<exists>body. scrapeRequestSchema_parse unknown_keys parse_fields raw = Inr body
              \<and> a = scrape_job body team jobId (lso body) (extractor_of leo body))
         \<and> (\<forall>k \<in> set (map fst raw). k \<notin> set scrapeRequest_keys \<longrightarrow>
              submitted (scrapeController
                (scrapeRequestSchema_parse unknown_keys parse_fields) lso leo pipeline conv raw
                team jobId) = []
              \<and> (\<exists>e. outcome (scrapeController
                    (scrapeRequestSchema_parse unknown_keys parse_fields) lso leo pipeline conv
                    raw team jobId) = Thrown e))"
proof (intro conjI ballI impI)
  fix a
  assume "a \<in> set (submitted (scrapeController
              (scrapeRequestSchema_parse unknown_keys parse_fields) lso leo pipeline conv raw
              team jobId))"
  then show "\<exists>body. scrapeRequestSchema_parse unknown_keys parse_fields raw = Inr body
              \<and> a = scrape_job body team jobId (lso body) (extractor_of leo body)"
    by (cases "scrapeRequestSchema_parse unknown_keys parse_fields raw")
      (simp_all add: controller_rejected controller_submitted)
next
  fix k
  assume k: "k \<in> set (map fst raw)" "k \<notin> set scrapeRequest_keys"
  then have "k \<in> set (filter (\<lambda>k. k \<notin> set scrapeRequest_keys) (map fst raw))"
    by simp
  then obtain k' ks where "filter (\<lambda>k. k \<notin> set scrapeRequest_keys) (map fst raw) = k' # ks"
    by (cases "filter (\<lambda>k. k \<notin> set scrapeRequest_keys) (map fst raw)") auto
  then have rej: "scrapeRequestSchema_parse unknown_keys parse_fields raw =
      Inl (unknown_keys (k' # ks))"
    by (simp add: scrapeRequestSchema_parse_def)
  show "submitted (scrapeController
                (scrapeRequestSchema_parse unknown_keys parse_fields) lso leo pipeline conv raw
                team jobId) = []"
    using rej by (simp add: controller_rejected)
  show "\<exists>e. outcome (scrapeController
                    (scrapeRequestSchema_parse unknown_keys parse_fields) lso leo pipeline conv
                    raw team jobId) = Thrown e"
    using rej by (simp add: controller_rejected)
qed

text \<open>
  A body with the key \<^verbatim>\<open>crawlAll\<close> is refused and nothing is submitted; a body with the
  keys \<^verbatim>\<open>url\<close> and \<^verbatim>\<open>onlyMainContent\<close> is accepted and its job is submitted.
\<close>

theorem unknown_key_rejected_witness:
  "submitted (scrapeController (scrapeRequestSchema_parse example_unknown_keys example_fields)
      markdown_only example_extractor example_pipeline id bad_raw ''team-1'' ''job-1'') = []
   \<and> (\<exists>e. outcome (scrapeController
         (scrapeRequestSchema_parse example_unknown_keys example_fields)
         markdown_only example_extractor example_pipeline id bad_raw ''team-1'' ''job-1'') =
       Thrown e)
   \<and> submitted (scrapeController (scrapeRequestSchema_parse example_unknown_keys example_fields)
      markdown_only example_extractor example_pipeline id good_raw ''team-1'' ''job-1'') =
     [scrape_job example_body ''team-1'' ''job-1'' (markdown_only example_body)
        (extractor_of example_extractor example_body)]"
proof -
  have key: "''crawlAll'' \<in> set (map fst bad_raw)" "''crawlAll'' \<notin> set scrapeRequest_keys"
    by (simp_all add: bad_raw_def scrapeRequest_keys_def ScrapeOptions_keys_def)
  have good: "scrapeRequestSchema_parse example_unknown_keys example_fields good_raw =
      Inr example_body"
    by (simp add: scrapeRequestSchema_parse_def good_raw_def scrapeRequest_keys_def
        ScrapeOptions_keys_def example_fields_def)
  from key
    unknown_key_rejected [of example_unknown_keys example_fields markdown_only
      example_extractor example_pipeline id bad_raw "''team-1''" "''job-1''"]
  have "submitted (scrapeController (scrapeRequestSchema_parse example_unknown_keys example_fields)
      markdown_only example_extractor example_pipeline id bad_raw ''team-1'' ''job-1'') = []
   \<and> (\<exists>e. outcome (scrapeController
         (scrapeRequestSchema_parse example_unknown_keys example_fields)
         markdown_only example_extractor example_pipeline id bad_raw ''team-1'' ''job-1'') =
       Thrown e)"
    by blast
  with good show ?thesis
    by (simp add: controller_submitted)
qed

end
